theory Spec2Isabelle
  imports
    Complex_Main
    "HOL-Library.Char_ord"
    "HOL-Library.List_Lexorder"
    "HOL-Library.Product_Lexorder"
    "HOL-Library.Multiset"
begin

section \<open>Strings as Python sees them\<close>

text \<open>
  A Python \<open>str\<close> is modelled as a \<open>string\<close>; a \<open>char\<close> stands for a code point
  below 256. \<open>str.isspace\<close> holds there for the code points 9 to 13, 28 to 32, 133
  and 160, and \<open>str.strip()\<close> removes such characters from both ends.
\<close>

definition is_space :: "char \<Rightarrow> bool" where
  "is_space c =
     (let n = (of_char c :: nat)
      in (9 \<le> n \<and> n \<le> 13) \<or> (28 \<le> n \<and> n \<le> 32) \<or> n = 133 \<or> n = 160)"

definition strip :: "string \<Rightarrow> string" where
  "strip s = rev (dropWhile is_space (rev (dropWhile is_space s)))"

text \<open>
  \<open>s.split(sep)\<close> with a one-character separator: every occurrence cuts, so the result
  is never empty and \<open>''.split(sep) == ['']\<close>.
\<close>

fun split_on :: "char \<Rightarrow> string \<Rightarrow> string list" where
  "split_on c [] = [[]]"
| "split_on c (x # xs) =
     (if x = c then [] # split_on c xs
      else (case split_on c xs of
              [] \<Rightarrow> [[x]]
            | w # ws \<Rightarrow> (x # w) # ws))"

text \<open>\<open>str.lower()\<close> on code points below 256: A to Z, and the Latin-1 capitals
  192 to 222 without the multiplication sign 215, move up by 32.\<close>

definition lower_char :: "char \<Rightarrow> char" where
  "lower_char c =
     (let n = (of_char c :: nat)
      in if (65 \<le> n \<and> n \<le> 90) \<or> (192 \<le> n \<and> n \<le> 222 \<and> n \<noteq> 215)
         then char_of (n + 32) else c)"

definition lower :: "string \<Rightarrow> string" where
  "lower s = map lower_char s"

definition is_digit :: "char \<Rightarrow> bool" where
  "is_digit c = (let n = (of_char c :: nat) in 48 \<le> n \<and> n \<le> 57)"

definition digit_val :: "char \<Rightarrow> nat" where
  "digit_val c = of_char c - 48"

definition digits_val :: "string \<Rightarrow> nat" where
  "digits_val s = foldl (\<lambda>a c. 10 * a + digit_val c) 0 s"

text \<open>\<open>str(n)\<close> for a length, used in the log messages.\<close>

fun str_nat_aux :: "nat \<Rightarrow> nat \<Rightarrow> string" where
  "str_nat_aux 0 n = []"
| "str_nat_aux (Suc fuel) n =
     (if n < 10 then [''0123456789'' ! n]
      else str_nat_aux fuel (n div 10) @ [''0123456789'' ! (n mod 10)])"

definition str_nat :: "nat \<Rightarrow> string" where
  "str_nat n = str_nat_aux (Suc n) n"


section \<open>Exceptions\<close>

text \<open>
  Every exception below derives from Python's \<open>Exception\<close>, so \<open>except Exception\<close>
  catches each of them. \<open>WebDriverError\<close> stands for whatever the browser automation
  raises (timeout, element not found, session failure), with its message. The messages
  of \<open>ValueError\<close> and \<open>KeyError\<close> are not kept: in a log line the name of the exception
  stands for \<open>str(e)\<close>.
\<close>

datatype error = ValueError | KeyError | WebDriverError string

fun str_error :: "error \<Rightarrow> string" where
  "str_error ValueError = ''ValueError''"
| "str_error KeyError = ''KeyError''"
| "str_error (WebDriverError msg) = msg"


section \<open>Permit records and markup\<close>

text \<open>
  A permit is a Python dict from field names to strings; it is kept as an association
  list in insertion order, so that its key order is visible. \<open>x[k]\<close> raises
  \<open>KeyError\<close> on a missing key.
\<close>

type_synonym permit = "(string \<times> string) list"

definition getitem :: "permit \<Rightarrow> string \<Rightarrow> error + string" where
  "getitem x k = (case map_of x k of None \<Rightarrow> Inl KeyError | Some v \<Rightarrow> Inr v)"

definition permit_keys :: "string list" where
  "permit_keys =
     [''permit_number'', ''issue_date'', ''address'', ''work_type'', ''contractor'',
      ''valuation'']"

text \<open>
  The parsed page, as the extractors query it: \<open>table\<close> is \<open>soup.find('table')\<close>, given
  by its \<open>tr\<close> rows, each row by the \<open>get_text()\<close> of its \<open>td\<close> cells; \<open>cards\<close> are the
  \<open>get_text()\<close> of the \<open>div\<close> and \<open>li\<close> elements whose class matches
  \<open>permit|result|record\<close>, in document order.
\<close>

record soup =
  table :: "string list list option"
  cards :: "string list"


section \<open>Extractors\<close>

text \<open>\<open>parse_accela_results\<close>: the rows after the first, kept when they have at least
  six cells.\<close>

definition accela_row :: "string list \<Rightarrow> permit list" where
  "accela_row cols =
     (if length cols \<ge> 6 then
        [[(''permit_number'', strip (cols ! 0)),
          (''issue_date'', strip (cols ! 1)),
          (''address'', strip (cols ! 2)),
          (''work_type'', strip (cols ! 3)),
          (''contractor'', if length cols > 4 then strip (cols ! 4) else ''''),
          (''valuation'', if length cols > 5 then strip (cols ! 5) else '''')]]
      else [])"

definition parse_accela_results :: "soup \<Rightarrow> permit list" where
  "parse_accela_results sp =
     (case table sp of
        None \<Rightarrow> []
      | Some trs \<Rightarrow> concat (map accela_row (tl trs)))"

text \<open>\<open>parse_nashville_results\<close>: the table first, with rows of at least four cells;
  the cards when that produced no permit.\<close>

definition nashville_row :: "string list \<Rightarrow> permit list" where
  "nashville_row cols =
     (if length cols \<ge> 4 then
        [[(''permit_number'', strip (cols ! 0)),
          (''issue_date'', if length cols > 1 then strip (cols ! 1) else ''''),
          (''address'', if length cols > 2 then strip (cols ! 2) else ''''),
          (''work_type'', if length cols > 3 then strip (cols ! 3) else ''''),
          (''contractor'', if length cols > 4 then strip (cols ! 4) else ''''),
          (''valuation'', if length cols > 5 then strip (cols ! 5) else '''')]]
      else [])"

definition nashville_card :: "string \<Rightarrow> permit list" where
  "nashville_card permit_text =
     (let lines = split_on CHR 0x0A permit_text
      in if length lines \<ge> 3 then
           [[(''permit_number'', strip (lines ! 0)),
             (''issue_date'', if length lines > 1 then strip (lines ! 1) else ''''),
             (''address'', if length lines > 2 then strip (lines ! 2) else ''''),
             (''work_type'', ''Unknown''),
             (''contractor'', ''''),
             (''valuation'', '''')]]
         else [])"

definition nashville_table :: "soup \<Rightarrow> permit list" where
  "nashville_table sp =
     (case table sp of
        None \<Rightarrow> []
      | Some trs \<Rightarrow> concat (map nashville_row (tl trs)))"

definition parse_nashville_results :: "soup \<Rightarrow> permit list" where
  "parse_nashville_results sp =
     (let permits = nashville_table sp
      in if permits = [] then concat (map nashville_card (cards sp)) else permits)"

text \<open>\<open>parse_csv_permits\<close>: the lines after the first, kept when not blank and with at
  least six comma-separated parts.\<close>

definition csv_line :: "string \<Rightarrow> permit list" where
  "csv_line line =
     (if strip line \<noteq> [] then
        (let parts = split_on CHR '','' line
         in if length parts \<ge> 6 then
              [[(''permit_number'', strip (parts ! 0)),
                (''issue_date'', strip (parts ! 1)),
                (''address'', strip (parts ! 2)),
                (''work_type'', strip (parts ! 3)),
                (''contractor'', strip (parts ! 4)),
                (''valuation'', strip (parts ! 5))]]
            else [])
      else [])"

definition parse_csv_permits :: "string \<Rightarrow> permit list" where
  "parse_csv_permits content = concat (map csv_line (tl (split_on CHR 0x0A content)))"

section \<open>Dates and numbers\<close>

text \<open>
  \<open>datetime.strptime(s, "%m/%d/%Y")\<close>. The format compiles to the regular expression
  \<open>(1[0-2]|0[1-9]|[1-9])/(3[0-1]|[1-2]\d|0[1-9]|[1-9]| [1-9])/(\d\d\d\d)\<close>, which must
  match the whole string; the date must then exist (year 1 to 9999, day within the
  month). Every failure is a \<open>ValueError\<close>. The result is (year, month, day), ordered
  lexicographically as \<open>datetime\<close> values are; the time of day is always midnight.
\<close>

type_synonym datetime = "nat \<times> nat \<times> nat"

definition datetime_min :: datetime where
  "datetime_min = (1, 1, 1)"

definition in_range :: "char \<Rightarrow> char \<Rightarrow> char \<Rightarrow> bool" where
  "in_range lo hi c = ((of_char lo :: nat) \<le> of_char c \<and> (of_char c :: nat) \<le> of_char hi)"

fun month_token :: "string \<Rightarrow> bool" where
  "month_token [a] = in_range CHR ''1'' CHR ''9'' a"
| "month_token [a, b] =
     ((a = CHR ''1'' \<and> in_range CHR ''0'' CHR ''2'' b)
      \<or> (a = CHR ''0'' \<and> in_range CHR ''1'' CHR ''9'' b))"
| "month_token _ = False"

fun day_token :: "string \<Rightarrow> bool" where
  "day_token [a] = in_range CHR ''1'' CHR ''9'' a"
| "day_token [a, b] =
     ((a = CHR ''3'' \<and> in_range CHR ''0'' CHR ''1'' b)
      \<or> (in_range CHR ''1'' CHR ''2'' a \<and> is_digit b)
      \<or> (a = CHR ''0'' \<and> in_range CHR ''1'' CHR ''9'' b)
      \<or> (a = CHR '' '' \<and> in_range CHR ''1'' CHR ''9'' b))"
| "day_token _ = False"

definition year_token :: "string \<Rightarrow> bool" where
  "year_token y = (length y = 4 \<and> list_all is_digit y)"

definition is_leap :: "nat \<Rightarrow> bool" where
  "is_leap y = (y mod 4 = 0 \<and> (0 < y mod 100 \<or> y mod 400 = 0))"

definition days_in_month :: "nat \<Rightarrow> nat \<Rightarrow> nat" where
  "days_in_month y m =
     (if m = 2 then (if is_leap y then 29 else 28)
      else if m = 4 \<or> m = 6 \<or> m = 9 \<or> m = 11 then 30 else 31)"

definition strptime :: "string \<Rightarrow> error + datetime" where
  "strptime s =
     (case split_on CHR ''/'' s of
        [m, d, y] \<Rightarrow>
          if month_token m \<and> day_token d \<and> year_token y then
            (let year = digits_val y;
                 month = digits_val m;
                 day = digits_val (dropWhile is_space d)
             in if 1 \<le> year \<and> day \<le> days_in_month year month
                then Inr (year, month, day) else Inl ValueError)
          else Inl ValueError
      | _ \<Rightarrow> Inl ValueError)"

text \<open>
  \<open>float(re.sub(r'[^\d.]', '', s))\<close>. The substitution leaves digits and dots only; on
  such a string \<open>float\<close> accepts at most one dot and at least one digit, and raises
  \<open>ValueError\<close> otherwise. The number is kept as the exact decimal value: the rounding
  to a binary double, which is monotone, is left out.
\<close>

definition re_sub_non_digit_dot :: "string \<Rightarrow> string" where
  "re_sub_non_digit_dot s = filter (\<lambda>c. is_digit c \<or> c = CHR ''.'') s"

definition float_digits_dots :: "string \<Rightarrow> error + rat" where
  "float_digits_dots t =
     (case split_on CHR ''.'' t of
        [a] \<Rightarrow> if a = [] then Inl ValueError else Inr (of_nat (digits_val a))
      | [a, b] \<Rightarrow>
          if a = [] \<and> b = [] then Inl ValueError
          else Inr (of_nat (digits_val a) + of_nat (digits_val b) / 10 ^ length b)
      | _ \<Rightarrow> Inl ValueError)"


section \<open>Sorting\<close>

text \<open>
  \<open>sorted(xs, key=f, reverse=r)\<close> and \<open>xs.sort(key=f, reverse=r)\<close>: the keys are computed
  first, from left to right, and the first exception leaves the list as it was; the
  sort is stable, and a reversed sort is the stable sort of the reversed list,
  reversed.
\<close>

fun keyed :: "('a \<Rightarrow> error + 'k) \<Rightarrow> 'a list \<Rightarrow> error + ('k \<times> 'a) list" where
  "keyed f [] = Inr []"
| "keyed f (x # xs) =
     (case f x of
        Inl e \<Rightarrow> Inl e
      | Inr k \<Rightarrow> (case keyed f xs of
                    Inl e \<Rightarrow> Inl e
                  | Inr kxs \<Rightarrow> Inr ((k, x) # kxs)))"

definition sorted_py :: "('a \<Rightarrow> error + 'k::linorder) \<Rightarrow> bool \<Rightarrow> 'a list \<Rightarrow> error + 'a list" where
  "sorted_py f reverse xs =
     (case keyed f xs of
        Inl e \<Rightarrow> Inl e
      | Inr kxs \<Rightarrow>
          Inr (map snd (if reverse then rev (sort_key fst (rev kxs)) else sort_key fst kxs)))"

text \<open>The key functions: the one of \<open>save_to_csv\<close>, then the five of
  \<open>generate_sorted_versions\<close>.\<close>

definition primary_date_key :: "permit \<Rightarrow> error + datetime" where
  "primary_date_key x =
     (case getitem x ''issue_date'' of Inl e \<Rightarrow> Inl e | Inr s \<Rightarrow> strptime s)"

definition date_key :: "permit \<Rightarrow> error + datetime" where
  "date_key x =
     (case getitem x ''issue_date'' of
        Inl e \<Rightarrow> Inl e
      | Inr s \<Rightarrow> if s \<noteq> [] then strptime s else Inr datetime_min)"

definition valuation_key :: "permit \<Rightarrow> error + rat" where
  "valuation_key x =
     (case getitem x ''valuation'' of
        Inl e \<Rightarrow> Inl e
      | Inr s \<Rightarrow> if s \<noteq> [] then float_digits_dots (re_sub_non_digit_dot s) else Inr 0)"

definition lower_key :: "string \<Rightarrow> permit \<Rightarrow> error + string" where
  "lower_key k x = (case getitem x k of Inl e \<Rightarrow> Inl e | Inr s \<Rightarrow> Inr (lower s))"


section \<open>The sink\<close>

text \<open>
  The world the scraper acts on: the files written, in order, each as its rows (a CSV
  file is kept as the rows handed to the writer, the header first); the log; and the
  number of browser sessions that are open.
\<close>

record world =
  files :: "(string \<times> string list list) list"
  log :: "(string \<times> string) list"
  live_sessions :: nat

definition logging :: "string \<Rightarrow> string \<Rightarrow> world \<Rightarrow> world" where
  "logging level msg w = w\<lparr>log := log w @ [(level, msg)]\<rparr>"

text \<open>
  The scraper object. Of the configuration only the header list reaches the sink; the
  configuration is taken to hold every key the code reads.
\<close>

record scraper =
  csv_headers :: "string list"

text \<open>
  \<open>csv.DictWriter\<close> with its defaults: a row with a key outside \<open>fieldnames\<close> raises
  \<open>ValueError\<close>; otherwise the row is read in the order of \<open>fieldnames\<close>, a missing key
  giving the empty string. \<open>writerows\<close> writes row after row, so the rows before a
  failing one are in the file.
\<close>

definition dict_get :: "permit \<Rightarrow> string \<Rightarrow> string \<Rightarrow> string" where
  "dict_get d key restval = (case map_of d key of None \<Rightarrow> restval | Some v \<Rightarrow> v)"

definition dict_to_list :: "string list \<Rightarrow> permit \<Rightarrow> error + string list" where
  "dict_to_list fieldnames rowdict =
     (if list_ex (\<lambda>k. k \<notin> set fieldnames) (map fst rowdict) then Inl ValueError
      else Inr (map (\<lambda>key. dict_get rowdict key []) fieldnames))"

fun writerows :: "string list \<Rightarrow> permit list \<Rightarrow> error option \<times> string list list" where
  "writerows fieldnames [] = (None, [])"
| "writerows fieldnames (p # ps) =
     (case dict_to_list fieldnames p of
        Inl e \<Rightarrow> (Some e, [])
      | Inr r \<Rightarrow> (case writerows fieldnames ps of (e, rs) \<Rightarrow> (e, r # rs)))"

definition write_csv :: "scraper \<Rightarrow> string \<Rightarrow> permit list \<Rightarrow> world \<Rightarrow> error option \<times> world" where
  "write_csv self filename permits w =
     (case writerows (csv_headers self) permits of
        (e, rows) \<Rightarrow> (e, w\<lparr>files := files w @ [(filename, csv_headers self # rows)]\<rparr>))"

text \<open>The two file names, as the f-strings build them.\<close>

definition primary_filename :: "string \<Rightarrow> string \<Rightarrow> string" where
  "primary_filename county_slug timestamp =
     ''data/'' @ county_slug @ ''_permits_'' @ timestamp @ ''.csv''"

definition sorted_filename :: "string \<Rightarrow> string \<Rightarrow> string \<Rightarrow> string" where
  "sorted_filename county_slug timestamp sort_name =
     ''data/'' @ county_slug @ ''_permits_'' @ timestamp @ ''_sorted_'' @ sort_name @ ''.csv''"

definition sort_names :: "string list" where
  "sort_names = [''date'', ''valuation'', ''address'', ''contractor'', ''work_type'']"

definition sorted_variant :: "string \<Rightarrow> permit list \<Rightarrow> error + permit list" where
  "sorted_variant sort_name permits =
     (let reverse = (sort_name \<in> set [''date'', ''valuation''])
      in if sort_name = ''date'' then sorted_py date_key reverse permits
         else if sort_name = ''valuation'' then sorted_py valuation_key reverse permits
         else if sort_name = ''address'' then sorted_py (lower_key ''address'') reverse permits
         else if sort_name = ''contractor'' then sorted_py (lower_key ''contractor'') reverse permits
         else sorted_py (lower_key ''work_type'') reverse permits)"

fun sorted_loop ::
  "scraper \<Rightarrow> permit list \<Rightarrow> string \<Rightarrow> string \<Rightarrow> string list \<Rightarrow> world \<Rightarrow> error option \<times> world" where
  "sorted_loop self permits county_slug timestamp [] w = (None, w)"
| "sorted_loop self permits county_slug timestamp (sort_name # rest) w =
     (case sorted_variant sort_name permits of
        Inl e \<Rightarrow> (Some e, w)
      | Inr sorted_permits \<Rightarrow>
          (let filename = sorted_filename county_slug timestamp sort_name
           in case write_csv self filename sorted_permits w of
                (Some e, w') \<Rightarrow> (Some e, w')
              | (None, w') \<Rightarrow>
                  sorted_loop self permits county_slug timestamp rest
                    (logging ''INFO'' (''Saved sorted '' @ sort_name @ '' version to '' @ filename) w')))"

definition generate_sorted_versions ::
  "scraper \<Rightarrow> permit list \<Rightarrow> string \<Rightarrow> string \<Rightarrow> world \<Rightarrow> error option \<times> world" where
  "generate_sorted_versions self permits county_slug timestamp w =
     sorted_loop self permits county_slug timestamp sort_names w"

text \<open>
  The \<open>try\<close> block of \<open>save_to_csv\<close>: the list is sorted in place, newest first; a
  \<open>ValueError\<close> of the key is caught and logged as a warning, the list being left as
  it was; any other exception goes on.
\<close>

definition sort_by_issue_date ::
  "permit list \<Rightarrow> string \<Rightarrow> world \<Rightarrow> error + permit list \<times> world" where
  "sort_by_issue_date permits county_slug w =
     (case sorted_py primary_date_key True permits of
        Inr sorted_permits \<Rightarrow> Inr (sorted_permits, w)
      | Inl ValueError \<Rightarrow>
          Inr (permits,
               logging ''WARNING''
                 (''Could not sort permits for '' @ county_slug @ '' by date'') w)
      | Inl e \<Rightarrow> Inl e)"

text \<open>
  \<open>save_to_csv\<close>. \<open>timestamp\<close> is the formatted \<open>datetime.now()\<close>. The list is sorted in
  place, so the list the caller holds afterwards is returned with the outcome.
\<close>

definition save_to_csv ::
  "scraper \<Rightarrow> permit list \<Rightarrow> string \<Rightarrow> string \<Rightarrow> bool \<Rightarrow> world
     \<Rightarrow> error option \<times> permit list \<times> world" where
  "save_to_csv self permits county_slug timestamp generate_sorted w =
     (if permits = [] then (None, permits, w)
      else
        (let base_filename = primary_filename county_slug timestamp
         in case sort_by_issue_date permits county_slug w of
              Inl e \<Rightarrow> (Some e, permits, w)
            | Inr (permits1, w1) \<Rightarrow>
                (case write_csv self base_filename permits1 w1 of
                   (Some e, w2) \<Rightarrow> (Some e, permits1, w2)
                 | (None, w2) \<Rightarrow>
                     (let w3 = logging ''INFO''
                                 (''Saved '' @ str_nat (length permits1) @ '' permits to ''
                                    @ base_filename) w2
                      in if generate_sorted then
                           (case generate_sorted_versions self permits1 county_slug timestamp w3 of
                              (e, w4) \<Rightarrow> (e, permits1, w4))
                         else (None, permits1, w3)))))"


section \<open>The sources and the orchestrator\<close>

text \<open>
  What one source meets in a run: whether \<open>get_driver\<close> raises; what the navigation
  ends in, an exception or the page source as parsed; and the clock at the save.
  \<open>driver.quit()\<close> is the release of the session and is taken not to raise; the
  sleeps are left out.
\<close>

record source_env =
  get_driver :: "error option"
  page_source :: "error + soup"
  now :: string

text \<open>
  The four \<open>scrape_*\<close> methods have one shape: \<open>get_driver\<close> before the \<open>try\<close>; inside
  it the navigation, the extractor, \<open>save_to_csv\<close> without its third argument, and
  the count logged; \<open>except Exception\<close> logging the error; \<open>finally\<close> the quit.
\<close>

definition scrape_county ::
  "string \<Rightarrow> string \<Rightarrow> (soup \<Rightarrow> permit list) \<Rightarrow> scraper \<Rightarrow> source_env \<Rightarrow> world
     \<Rightarrow> error option \<times> world" where
  "scrape_county county_name county_slug parse self env w =
     (case get_driver env of
        Some e \<Rightarrow> (Some e, w)
      | None \<Rightarrow>
          (let w0 = w\<lparr>live_sessions := live_sessions w + 1\<rparr>;
               w1 = logging ''INFO'' (''Starting '' @ county_name @ '' scrape'') w0;
               (raised, w2) =
                 (case page_source env of
                    Inl e \<Rightarrow> (Some e, w1)
                  | Inr sp \<Rightarrow>
                      (case save_to_csv self (parse sp) county_slug (now env) False w1 of
                         (Some e, permits, w') \<Rightarrow> (Some e, w')
                       | (None, permits, w') \<Rightarrow>
                           (None,
                            logging ''INFO''
                              (''Scraped '' @ str_nat (length permits) @ '' permits from ''
                                 @ county_name) w')));
               w3 = (case raised of
                       Some e \<Rightarrow>
                         logging ''ERROR''
                           (''Error scraping '' @ county_name @ '': '' @ str_error e) w2
                     | None \<Rightarrow> w2)
           in (None, w3\<lparr>live_sessions := live_sessions w3 - 1\<rparr>)))"

definition scrape_bexar :: "scraper \<Rightarrow> source_env \<Rightarrow> world \<Rightarrow> error option \<times> world" where
  "scrape_bexar = scrape_county ''Bexar County'' ''bexar'' parse_accela_results"

definition scrape_hamilton :: "scraper \<Rightarrow> source_env \<Rightarrow> world \<Rightarrow> error option \<times> world" where
  "scrape_hamilton = scrape_county ''Hamilton County'' ''hamilton'' parse_accela_results"

definition scrape_davidson :: "scraper \<Rightarrow> source_env \<Rightarrow> world \<Rightarrow> error option \<times> world" where
  "scrape_davidson = scrape_county ''Davidson County'' ''davidson'' parse_nashville_results"

definition scrape_travis :: "scraper \<Rightarrow> source_env \<Rightarrow> world \<Rightarrow> error option \<times> world" where
  "scrape_travis = scrape_county ''Travis County'' ''travis'' parse_accela_results"

record run_env =
  bexar :: source_env
  hamilton :: source_env
  davidson :: source_env
  travis :: source_env

text \<open>\<open>run_all\<close>: the four sources in order; an exception leaving one of them leaves
  \<open>run_all\<close>. Its argument \<open>generate_sorted\<close> is not used in the body.\<close>

definition run_all :: "scraper \<Rightarrow> bool \<Rightarrow> run_env \<Rightarrow> world \<Rightarrow> error option \<times> world" where
  "run_all self generate_sorted envs w =
     (let w0 = logging ''INFO'' ''Starting full scrape cycle'' w
      in case scrape_bexar self (bexar envs) w0 of
           (Some e, w1) \<Rightarrow> (Some e, w1)
         | (None, w1) \<Rightarrow>
             (case scrape_hamilton self (hamilton envs) w1 of
                (Some e, w2) \<Rightarrow> (Some e, w2)
              | (None, w2) \<Rightarrow>
                  (case scrape_davidson self (davidson envs) w2 of
                     (Some e, w3) \<Rightarrow> (Some e, w3)
                   | (None, w3) \<Rightarrow>
                       (case scrape_travis self (travis envs) w3 of
                          (Some e, w4) \<Rightarrow> (Some e, w4)
                        | (None, w4) \<Rightarrow>
                            (None, logging ''INFO'' ''Completed full scrape cycle'' w4)))))"

text \<open>\<open>main\<close>: \<open>args_sort\<close> is the value of the \<open>--sort\<close> flag.\<close>

definition main :: "scraper \<Rightarrow> bool \<Rightarrow> run_env \<Rightarrow> world \<Rightarrow> error option \<times> world" where
  "main self args_sort = run_all self args_sort"

section \<open>Auxiliary facts on strings, records and rows\<close>

lemma last_dropWhile_ne: "dropWhile P xs \<noteq> [] \<Longrightarrow> last (dropWhile P xs) = last xs"
  by (induction xs) (auto split: if_splits)

lemma strip_idem: "strip (strip s) = strip s"
proof -
  define a where "a = dropWhile is_space s"
  define b where "b = rev (dropWhile is_space (rev a))"
  have b: "strip s = b" by (simp add: strip_def a_def b_def)
  have "dropWhile is_space b = b"
  proof (cases "b = []")
    case True then show ?thesis by simp
  next
    case False
    then have ne: "dropWhile is_space (rev a) \<noteq> []" by (simp add: b_def)
    then have "a \<noteq> []" by auto
    then have "\<not> is_space (hd a)" unfolding a_def by (rule hd_dropWhile)
    moreover have "hd b = hd a"
      using ne \<open>a \<noteq> []\<close> by (simp add: b_def hd_rev last_dropWhile_ne last_rev)
    ultimately show ?thesis using False by (simp add: dropWhile_eq_self_iff)
  qed
  then have "strip b = rev (dropWhile is_space (rev b))" by (simp add: strip_def)
  also have "\<dots> = b" by (simp add: b_def)
  finally show ?thesis by (simp add: b)
qed

lemma strip_Nil: "strip [] = []"
  by (simp add: strip_def)

lemma strip_Unknown: "strip ''Unknown'' = ''Unknown''"
  by (simp add: strip_def is_space_def)




lemma accela_row_wf:
  "p \<in> set (accela_row cols) \<Longrightarrow> map fst p = permit_keys \<and> (\<forall>v\<in>set (map snd p). strip v = v)"
  by (auto simp: accela_row_def permit_keys_def strip_idem strip_Nil split: if_splits)

lemma nashville_row_wf:
  "p \<in> set (nashville_row cols) \<Longrightarrow> map fst p = permit_keys \<and> (\<forall>v\<in>set (map snd p). strip v = v)"
  by (auto simp: nashville_row_def permit_keys_def strip_idem strip_Nil split: if_splits)

lemma nashville_card_wf:
  "p \<in> set (nashville_card t) \<Longrightarrow> map fst p = permit_keys \<and> (\<forall>v\<in>set (map snd p). strip v = v)"
  by (auto simp: nashville_card_def permit_keys_def strip_idem strip_Nil strip_Unknown Let_def
      split: if_splits)

lemma csv_line_wf:
  "p \<in> set (csv_line l) \<Longrightarrow> map fst p = permit_keys \<and> (\<forall>v\<in>set (map snd p). strip v = v)"
  by (auto simp: csv_line_def permit_keys_def strip_idem Let_def split: if_splits)

lemma parse_accela_results_wf:
  "p \<in> set (parse_accela_results sp) \<Longrightarrow> map fst p = permit_keys \<and> (\<forall>v\<in>set (map snd p). strip v = v)"
  using accela_row_wf by (fastforce simp: parse_accela_results_def split: option.splits)

lemma parse_nashville_results_wf:
  "p \<in> set (parse_nashville_results sp) \<Longrightarrow> map fst p = permit_keys \<and> (\<forall>v\<in>set (map snd p). strip v = v)"
  using nashville_row_wf nashville_card_wf
  by (fastforce simp: parse_nashville_results_def nashville_table_def Let_def
      split: option.splits if_splits)

lemma parse_csv_permits_wf:
  "p \<in> set (parse_csv_permits content) \<Longrightarrow> map fst p = permit_keys \<and> (\<forall>v\<in>set (map snd p). strip v = v)"
  using csv_line_wf by (fastforce simp: parse_csv_permits_def)

lemma row_of_distinct_keys:
  assumes "distinct (map fst p)"
  shows "map (\<lambda>key. dict_get p key []) (map fst p) = map snd p"
proof -
  have "map_of p (fst x) = Some (snd x)" if "x \<in> set p" for x
    using assms that by (cases x) simp
  then show ?thesis by (simp add: dict_get_def)
qed

lemma distinct_permit_keys: "distinct permit_keys"
  by (simp add: permit_keys_def)

lemma dict_to_list_own_keys:
  "distinct (map fst p) \<Longrightarrow> dict_to_list (map fst p) p = Inr (map snd p)"
  using row_of_distinct_keys [of p] by (simp add: dict_to_list_def list_ex_iff)


section \<open>Properties of the extractors\<close>

text \<open>
  Claim C10. Every record that \<open>parse_accela_results\<close>, \<open>parse_nashville_results\<close> or
  \<open>parse_csv_permits\<close> emits has the six keys \<open>permit_number\<close>, \<open>issue_date\<close>,
  \<open>address\<close>, \<open>work_type\<close>, \<open>contractor\<close>, \<open>valuation\<close>, in this order and no other;
  every value is a stripped string; and a writer whose field names are these six keys
  writes the record's values with no field missing and none in excess.
\<close>

theorem extractor_records_six_stripped_fields:
  assumes "p \<in> set (parse_accela_results sp) \<union> set (parse_nashville_results sp')
             \<union> set (parse_csv_permits content)"
  shows "map fst p = permit_keys \<and> (\<forall>v\<in>set (map snd p). strip v = v)
         \<and> dict_to_list permit_keys p = Inr (map snd p)"
proof -
  have wf: "map fst p = permit_keys \<and> (\<forall>v\<in>set (map snd p). strip v = v)"
    using assms parse_accela_results_wf parse_nashville_results_wf parse_csv_permits_wf
    by blast
  then have "dict_to_list permit_keys p = Inr (map snd p)"
    using dict_to_list_own_keys [of p] distinct_permit_keys by simp
  with wf show ?thesis by simp
qed

theorem extractor_records_six_stripped_fields_witness:
  "[(''permit_number'', ''P1''), (''issue_date'', ''01/05/2024''), (''address'', ''1 Main St''),
    (''work_type'', ''Roof''), (''contractor'', ''ACME''), (''valuation'', ''$10,000'')]
     \<in> set (parse_accela_results
               \<lparr>table = Some [[''Permit'', ''Date''],
                              ['' P1 '', ''01/05/2024'', ''1 Main St '', ''Roof'', ''ACME'',
                               ''$10,000'']],
                cards = []\<rparr>)
         \<union> set (parse_nashville_results \<lparr>table = None, cards = []\<rparr>)
         \<union> set (parse_csv_permits [])
   \<and> map fst [(''permit_number'', ''P1''), (''issue_date'', ''01/05/2024''),
               (''address'', ''1 Main St''), (''work_type'', ''Roof''),
               (''contractor'', ''ACME''), (''valuation'', ''$10,000'')] = permit_keys
   \<and> dict_to_list permit_keys
         [(''permit_number'', ''P1''), (''issue_date'', ''01/05/2024''),
          (''address'', ''1 Main St''), (''work_type'', ''Roof''),
          (''contractor'', ''ACME''), (''valuation'', ''$10,000'')]
       = Inr [''P1'', ''01/05/2024'', ''1 Main St'', ''Roof'', ''ACME'', ''$10,000'']"
proof -
  let ?p = "[(''permit_number'', ''P1''), (''issue_date'', ''01/05/2024''),
             (''address'', ''1 Main St''), (''work_type'', ''Roof''),
             (''contractor'', ''ACME''), (''valuation'', ''$10,000'')]"
  let ?sp = "\<lparr>table = Some [[''Permit'', ''Date''],
                              ['' P1 '', ''01/05/2024'', ''1 Main St '', ''Roof'', ''ACME'',
                               ''$10,000'']],
             cards = []\<rparr>"
  have h: "?p \<in> set (parse_accela_results ?sp)
                \<union> set (parse_nashville_results \<lparr>table = None, cards = []\<rparr>)
                \<union> set (parse_csv_permits [])"
    by (simp add: parse_accela_results_def accela_row_def strip_def is_space_def)
  show ?thesis
    using h extractor_records_six_stripped_fields [OF h] by simp
qed

text \<open>
  Claim C7. With no table and no matching card in the markup, and with empty CSV
  content, each extractor returns the empty list; and \<open>save_to_csv\<close> on the empty list
  returns at once, leaving the files, the log and the list as they were.
\<close>

theorem empty_markup_writes_nothing:
  assumes "table sp = None" and "cards sp = []"
  shows "parse_accela_results sp = [] \<and> parse_nashville_results sp = []
         \<and> parse_csv_permits [] = []
         \<and> save_to_csv self [] county_slug timestamp generate_sorted w = (None, [], w)"
  using assms
  by (simp add: parse_accela_results_def parse_nashville_results_def nashville_table_def
      parse_csv_permits_def save_to_csv_def)

theorem empty_markup_writes_nothing_witness:
  "parse_accela_results \<lparr>table = None, cards = []\<rparr> = []
   \<and> parse_nashville_results \<lparr>table = None, cards = []\<rparr> = []
   \<and> parse_csv_permits [] = []
   \<and> save_to_csv \<lparr>csv_headers = permit_keys\<rparr> [] ''bexar'' ''20240108_060000'' True
         \<lparr>files = [], log = [], live_sessions = 0\<rparr>
       = (None, [], \<lparr>files = [], log = [], live_sessions = 0\<rparr>)"
  using empty_markup_writes_nothing [of "\<lparr>table = None, cards = []\<rparr>"
      "\<lparr>csv_headers = permit_keys\<rparr>" "''bexar''" "''20240108_060000''" True
      "\<lparr>files = [], log = [], live_sessions = 0\<rparr>"]
  by simp

text \<open>
  Claim C2, at a table whose only data row has four cells: \<open>parse_accela_results\<close>
  asks for six cells and emits nothing, where \<open>parse_nashville_results\<close> on the same
  table emits the record with empty \<open>contractor\<close> and \<open>valuation\<close>.
\<close>

theorem accela_drops_four_column_row:
  "parse_accela_results
     \<lparr>table = Some [[''Permit'', ''Date'', ''Address'', ''Type''],
                    [''P2'', ''01/07/2024'', ''2 Oak Ave'', ''Addition'']],
      cards = []\<rparr> = []
   \<and> parse_nashville_results
     \<lparr>table = Some [[''Permit'', ''Date'', ''Address'', ''Type''],
                    [''P2'', ''01/07/2024'', ''2 Oak Ave'', ''Addition'']],
      cards = []\<rparr>
     = [[(''permit_number'', ''P2''), (''issue_date'', ''01/07/2024''),
         (''address'', ''2 Oak Ave''), (''work_type'', ''Addition''),
         (''contractor'', []), (''valuation'', [])]]"
  by (simp add: parse_accela_results_def accela_row_def parse_nashville_results_def
      nashville_table_def nashville_row_def strip_def is_space_def)

text \<open>
  Claim C6 says that the card path is taken exactly when no table is found. Here a table
  is found, it has a header row only, and the card is read all the same.
\<close>

theorem fallback_used_with_table_counterexample:
  "table \<lparr>table = Some [[''Permit'', ''Date'', ''Address'', ''Type'']],
          cards = [''P9'' @ [CHR 0x0A] @ ''01/02/2024'' @ [CHR 0x0A] @ ''3 Elm St'']\<rparr> \<noteq> None
   \<and> parse_nashville_results
        \<lparr>table = Some [[''Permit'', ''Date'', ''Address'', ''Type'']],
         cards = [''P9'' @ [CHR 0x0A] @ ''01/02/2024'' @ [CHR 0x0A] @ ''3 Elm St'']\<rparr>
       = [[(''permit_number'', ''P9''), (''issue_date'', ''01/02/2024''),
           (''address'', ''3 Elm St''), (''work_type'', ''Unknown''),
           (''contractor'', []), (''valuation'', [])]]"
  by (simp add: parse_nashville_results_def nashville_table_def nashville_card_def
      strip_def is_space_def)

lemma nashville_row_Nil_iff: "nashville_row r = [] \<longleftrightarrow> length r < 4"
  by (simp add: nashville_row_def)

lemma nashville_table_empty_iff:
  "nashville_table sp = [] \<longleftrightarrow>
     (case table sp of None \<Rightarrow> True | Some trs \<Rightarrow> \<forall>r\<in>set (tl trs). length r < 4)"
  by (cases "table sp") (simp_all add: nashville_table_def nashville_row_Nil_iff)

lemma nashville_cards_records:
  "concat (map nashville_card cs) =
     map (\<lambda>t. [(''permit_number'', strip (split_on CHR 0x0A t ! 0)),
                (''issue_date'', strip (split_on CHR 0x0A t ! 1)),
                (''address'', strip (split_on CHR 0x0A t ! 2)),
                (''work_type'', ''Unknown''),
                (''contractor'', []),
                (''valuation'', [])])
       (filter (\<lambda>t. 3 \<le> length (split_on CHR 0x0A t)) cs)"
  by (induction cs) (auto simp: nashville_card_def Let_def)

text \<open>
  Claim C6, amended. The card path of \<open>parse_nashville_results\<close> is taken exactly when
  the table path emitted no record, that is when there is no table or no row after the
  first has at least four cells. It then emits, for every card whose text has at least
  three lines, in order, the record with the stripped lines 0, 1, 2 as \<open>permit_number\<close>,
  \<open>issue_date\<close>, \<open>address\<close>, with \<open>work_type\<close> \<open>Unknown\<close> and empty \<open>contractor\<close> and
  \<open>valuation\<close>, and nothing for the other cards; otherwise the result is the table's
  records.
\<close>

theorem nashville_fallback_when_table_yields_nothing:
  "parse_nashville_results sp =
     (if (case table sp of None \<Rightarrow> True | Some trs \<Rightarrow> \<forall>r\<in>set (tl trs). length r < 4)
      then map (\<lambda>t. [(''permit_number'', strip (split_on CHR 0x0A t ! 0)),
                      (''issue_date'', strip (split_on CHR 0x0A t ! 1)),
                      (''address'', strip (split_on CHR 0x0A t ! 2)),
                      (''work_type'', ''Unknown''),
                      (''contractor'', []),
                      (''valuation'', [])])
             (filter (\<lambda>t. 3 \<le> length (split_on CHR 0x0A t)) (cards sp))
      else nashville_table sp)"
  using nashville_table_empty_iff [of sp] nashville_cards_records [of "cards sp"]
  by (simp add: parse_nashville_results_def Let_def)

theorem nashville_fallback_when_table_yields_nothing_witness:
  "parse_nashville_results
     \<lparr>table = Some [[''Permit'', ''Date'', ''Address'', ''Type''], [''P1'', ''01/05/2024'']],
      cards = [''P9'' @ [CHR 0x0A] @ '' 01/02/2024'' @ [CHR 0x0A] @ ''3 Elm St'', ''no permits'']\<rparr>
   = [[(''permit_number'', ''P9''), (''issue_date'', ''01/02/2024''),
       (''address'', ''3 Elm St''), (''work_type'', ''Unknown''),
       (''contractor'', []), (''valuation'', [])]]"
  using nashville_fallback_when_table_yields_nothing
    [of "\<lparr>table = Some [[''Permit'', ''Date'', ''Address'', ''Type''], [''P1'', ''01/05/2024'']],
          cards = [''P9'' @ [CHR 0x0A] @ '' 01/02/2024'' @ [CHR 0x0A] @ ''3 Elm St'',
                   ''no permits'']\<rparr>"]
  by (simp add: strip_def is_space_def)

section \<open>Auxiliary facts on sorting and on the sink\<close>

lemma keyed_snd: "keyed f xs = Inr kxs \<Longrightarrow> map snd kxs = xs"
  by (induction xs arbitrary: kxs) (auto split: sum.splits)

lemma keyed_key: "keyed f xs = Inr kxs \<Longrightarrow> (k, x) \<in> set kxs \<Longrightarrow> f x = Inr k"
  by (induction xs arbitrary: kxs) (auto split: sum.splits)

lemma keyed_first_error:
  assumes "\<exists>x\<in>set xs. isl (f x)" and "\<And>x e. x \<in> set xs \<Longrightarrow> f x = Inl e \<Longrightarrow> e = E"
  shows "keyed f xs = Inl E"
  using assms
proof (induction xs)
  case Nil
  then show ?case by simp
next
  case (Cons a xs)
  show ?case
  proof (cases "f a")
    case (Inl e)
    with Cons.prems(2) [of a e] show ?thesis by simp
  next
    case (Inr k)
    with Cons.prems(1) have "\<exists>x\<in>set xs. isl (f x)" by auto
    then have "keyed f xs = Inl E" using Cons.IH Cons.prems(2) by auto
    with Inr show ?thesis by simp
  qed
qed

lemma sorted_py_mset: "sorted_py f r xs = Inr ys \<Longrightarrow> mset ys = mset xs"
proof -
  assume a: "sorted_py f r xs = Inr ys"
  then obtain kxs where k: "keyed f xs = Inr kxs"
    by (auto simp: sorted_py_def split: sum.splits)
  have "mset (map snd (if r then rev (sort_key fst (rev kxs)) else sort_key fst kxs))
        = mset (map snd kxs)"
    by simp
  with a k keyed_snd [OF k] show ?thesis by (simp add: sorted_py_def)
qed

lemma sorted_py_descending:
  assumes "sorted_py f True xs = Inr ys"
  shows "sorted (rev (map (\<lambda>x. projr (f x)) ys))"
proof -
  from assms obtain kxs where k: "keyed f xs = Inr kxs"
    by (auto simp: sorted_py_def split: sum.splits)
  define s where "s = sort_key fst (rev kxs)"
  have ys: "ys = map snd (rev s)" using assms k by (simp add: sorted_py_def s_def)
  have "set s = set kxs" by (simp add: s_def)
  then have "\<And>p. p \<in> set s \<Longrightarrow> projr (f (snd p)) = fst p"
    using keyed_key [OF k] by (metis prod.collapse sum.sel(2))
  then have "map (\<lambda>x. projr (f x)) (map snd s) = map fst s" by simp
  then have "rev (map (\<lambda>x. projr (f x)) ys) = map fst s"
    by (simp add: ys rev_map)
  moreover have "sorted (map fst s)" by (simp add: s_def)
  ultimately show ?thesis by simp
qed

lemma writerows_rows:
  "writerows hdrs ps = (None, rows) \<Longrightarrow> rows = map (\<lambda>p. map (\<lambda>key. dict_get p key []) hdrs) ps"
  by (induction ps arbitrary: rows)
     (auto simp: dict_to_list_def split: sum.splits prod.splits if_splits)

lemma writerows_ok:
  "\<forall>p\<in>set ps. set (map fst p) \<subseteq> set hdrs \<Longrightarrow>
   writerows hdrs ps = (None, map (\<lambda>p. map (\<lambda>key. dict_get p key []) hdrs) ps)"
  by (induction ps) (auto simp: dict_to_list_def list_ex_iff)

lemma write_csv_ok:
  "\<forall>p\<in>set ps. set (map fst p) \<subseteq> set (csv_headers self) \<Longrightarrow>
   write_csv self name ps w =
     (None, w\<lparr>files := files w @
       [(name, csv_headers self # map (\<lambda>p. map (\<lambda>key. dict_get p key []) (csv_headers self)) ps)]\<rparr>)"
  by (simp add: write_csv_def writerows_ok)

lemma write_csv_None:
  "write_csv self name ps w = (None, w') \<Longrightarrow>
   w' = w\<lparr>files := files w @
       [(name, csv_headers self # map (\<lambda>p. map (\<lambda>key. dict_get p key []) (csv_headers self)) ps)]\<rparr>"
  by (auto simp: write_csv_def split: prod.splits dest: writerows_rows)

lemma write_csv_frame:
  "write_csv self name ps w = (r, w') \<Longrightarrow>
   log w' = log w \<and> live_sessions w' = live_sessions w \<and> (\<exists>new. files w' = files w @ new)"
  by (auto simp: write_csv_def split: prod.splits)

lemma sorted_variant_mset: "sorted_variant n ps = Inr ys \<Longrightarrow> mset ys = mset ps"
  by (auto simp: sorted_variant_def Let_def split: if_splits dest: sorted_py_mset)

lemma logging_frame [simp]:
  "files (logging l m w) = files w" "live_sessions (logging l m w) = live_sessions w"
  "log (logging l m w) = log w @ [(l, m)]"
  by (simp_all add: logging_def)

lemma sorted_loop_step:
  "sorted_variant n permits = Inr sp \<Longrightarrow>
   write_csv self (sorted_filename slug ts n) sp w = (None, w1) \<Longrightarrow>
   sorted_loop self permits slug ts (n # names) w =
     sorted_loop self permits slug ts names
       (logging ''INFO''
          (''Saved sorted '' @ n @ '' version to '' @ sorted_filename slug ts n) w1)"
  by (simp add: Let_def)

lemma sorted_loop_None_D:
  assumes "sorted_loop self permits slug ts (n # names) w = (None, w')"
  obtains sp w1 where "sorted_variant n permits = Inr sp"
    and "write_csv self (sorted_filename slug ts n) sp w = (None, w1)"
  using assms by (auto simp: Let_def split: sum.splits prod.splits option.splits)

lemma sorted_loop_files:
  "sorted_loop self permits slug ts names w = (None, w') \<Longrightarrow>
   \<exists>new. files w' = files w @ new \<and> length new = length names \<and>
     (\<forall>f\<in>set new. \<exists>recs. mset recs = mset permits \<and>
        snd f = csv_headers self
                 # map (\<lambda>p. map (\<lambda>key. dict_get p key []) (csv_headers self)) recs)"
proof (induction names arbitrary: w)
  case Nil
  then show ?case by simp
next
  case (Cons n names)
  from Cons.prems obtain sp w1 where sp: "sorted_variant n permits = Inr sp"
    and w1: "write_csv self (sorted_filename slug ts n) sp w = (None, w1)"
    by (rule sorted_loop_None_D)
  from Cons.prems have rest:
    "sorted_loop self permits slug ts names
       (logging ''INFO''
          (''Saved sorted '' @ n @ '' version to '' @ sorted_filename slug ts n) w1) = (None, w')"
    by (simp only: sorted_loop_step [OF sp w1])
  from Cons.IH [OF rest] obtain new where new:
    "files w' = files w1 @ new" "length new = length names"
    "\<forall>f\<in>set new. \<exists>recs. mset recs = mset permits \<and>
        snd f = csv_headers self
                 # map (\<lambda>p. map (\<lambda>key. dict_get p key []) (csv_headers self)) recs"
    by auto
  let ?f = "(sorted_filename slug ts n,
             csv_headers self # map (\<lambda>p. map (\<lambda>key. dict_get p key []) (csv_headers self)) sp)"
  have f1: "files w1 = files w @ [?f]" using write_csv_None [OF w1] by simp
  have "files w' = files w @ (?f # new)" using new(1) f1 by simp
  moreover have "length (?f # new) = length (n # names)" using new(2) by simp
  moreover have "\<forall>f\<in>set (?f # new). \<exists>recs. mset recs = mset permits \<and>
        snd f = csv_headers self
                 # map (\<lambda>p. map (\<lambda>key. dict_get p key []) (csv_headers self)) recs"
    using new(3) sorted_variant_mset [OF sp] by auto
  ultimately show ?case by blast
qed

lemma sorted_loop_frame:
  "sorted_loop self permits slug ts names w = (r, w') \<Longrightarrow>
   live_sessions w' = live_sessions w \<and> set (log w) \<subseteq> set (log w')
   \<and> (\<exists>new. files w' = files w @ new)"
proof (induction names arbitrary: w)
  case Nil
  then show ?case by simp
next
  case (Cons n names)
  show ?case
  proof (cases "sorted_variant n permits")
    case (Inl e)
    with Cons.prems show ?thesis by simp
  next
    case (Inr sp)
    obtain r1 w1 where w1: "write_csv self (sorted_filename slug ts n) sp w = (r1, w1)"
      by (cases "write_csv self (sorted_filename slug ts n) sp w")
    note fr = write_csv_frame [OF w1]
    show ?thesis
    proof (cases r1)
      case (Some e)
      with Cons.prems Inr w1 fr show ?thesis by (simp add: Let_def)
    next
      case None
      with Cons.prems Inr w1 have rest:
        "sorted_loop self permits slug ts names
           (logging ''INFO''
             (''Saved sorted '' @ n @ '' version to '' @ sorted_filename slug ts n) w1) = (r, w')"
        by (simp add: Let_def)
      from Cons.IH [OF rest] fr show ?thesis by auto
    qed
  qed
qed

lemma dict_to_list_map_of:
  assumes "map_of q = map_of p"
  shows "dict_to_list hdrs q = dict_to_list hdrs p"
proof -
  have "fst ` set q = fst ` set p"
    using assms by (metis dom_map_of_conv_image_fst)
  then show ?thesis using assms by (simp add: dict_to_list_def list_ex_iff dict_get_def)
qed

lemma sort_by_issue_date_Inr:
  "sort_by_issue_date permits slug w = Inr (permits1, w1) \<Longrightarrow>
   mset permits1 = mset permits \<and> files w1 = files w \<and> live_sessions w1 = live_sessions w
   \<and> set (log w) \<subseteq> set (log w1)"
  by (auto simp: sort_by_issue_date_def split: sum.splits error.splits dest: sorted_py_mset)

lemma save_to_csv_written:
  "permits \<noteq> [] \<Longrightarrow> sort_by_issue_date permits slug w = Inr (permits1, w1) \<Longrightarrow>
   write_csv self (primary_filename slug ts) permits1 w1 = (None, w2) \<Longrightarrow>
   save_to_csv self permits slug ts gs w =
     (if gs then
        (case generate_sorted_versions self permits1 slug ts
                (logging ''INFO''
                   (''Saved '' @ str_nat (length permits1) @ '' permits to ''
                      @ primary_filename slug ts) w2) of
           (e, w4) \<Rightarrow> (e, permits1, w4))
      else (None, permits1,
            logging ''INFO''
              (''Saved '' @ str_nat (length permits1) @ '' permits to ''
                 @ primary_filename slug ts) w2))"
  by (simp add: save_to_csv_def Let_def)

lemma save_to_csv_None_D:
  assumes "save_to_csv self permits slug ts gs w = (None, permits', w')" and "permits \<noteq> []"
  obtains permits1 w1 w2 where "sort_by_issue_date permits slug w = Inr (permits1, w1)"
    and "write_csv self (primary_filename slug ts) permits1 w1 = (None, w2)"
  using assms
  by (auto simp: save_to_csv_def Let_def split: sum.splits prod.splits option.splits)

lemma save_to_csv_None:
  assumes "save_to_csv self permits slug ts gs w = (None, permits', w')"
  shows "mset permits' = mset permits \<and>
         (\<exists>new. files w' = files w @ new \<and>
            (\<forall>f\<in>set new. \<exists>recs. mset recs = mset permits \<and>
               snd f = csv_headers self
                 # map (\<lambda>p. map (\<lambda>key. dict_get p key []) (csv_headers self)) recs))"
proof (cases "permits = []")
  case True
  with assms show ?thesis by (simp add: save_to_csv_def)
next
  case False
  from assms False obtain permits1 w1 w2
    where s1: "sort_by_issue_date permits slug w = Inr (permits1, w1)"
      and w2: "write_csv self (primary_filename slug ts) permits1 w1 = (None, w2)"
    by (rule save_to_csv_None_D)
  note eq = save_to_csv_written [OF False s1 w2, of gs]
  have m1: "mset permits1 = mset permits" and fw1: "files w1 = files w"
    using sort_by_issue_date_Inr [OF s1] by simp_all
  let ?row = "\<lambda>recs. csv_headers self # map (\<lambda>p. map (\<lambda>key. dict_get p key []) (csv_headers self)) recs"
  have fw2: "files w2 = files w @ [(primary_filename slug ts, ?row permits1)]"
    using write_csv_None [OF w2] fw1 by simp
  define w3 where "w3 = logging ''INFO''
       (''Saved '' @ str_nat (length permits1) @ '' permits to '' @ primary_filename slug ts) w2"
  have fw3: "files w3 = files w @ [(primary_filename slug ts, ?row permits1)]"
    by (simp add: w3_def fw2)
  show ?thesis
  proof (cases gs)
    case False
    with assms eq have "permits' = permits1" "w' = w3" by (simp_all add: w3_def)
    with m1 fw3 show ?thesis by auto
  next
    case True
    with assms eq
    have g: "generate_sorted_versions self permits1 slug ts w3 = (None, w')"
      and p': "permits' = permits1"
      by (auto simp: w3_def split: prod.splits)
    from sorted_loop_files [OF g [unfolded generate_sorted_versions_def]]
    obtain new where new: "files w' = files w3 @ new"
      "\<forall>f\<in>set new. \<exists>recs. mset recs = mset permits1 \<and> snd f = ?row recs"
      by auto
    have "files w' = files w @ ((primary_filename slug ts, ?row permits1) # new)"
      using new(1) by (simp add: fw3)
    moreover have "\<forall>f\<in>set ((primary_filename slug ts, ?row permits1) # new).
        \<exists>recs. mset recs = mset permits \<and> snd f = ?row recs"
      using new(2) m1 by auto
    ultimately show ?thesis using m1 p' by blast
  qed
qed

lemma length_sort_names: "length sort_names = 5"
  by (simp add: sort_names_def)

text \<open>The definitions that a concrete run unfolds.\<close>

lemmas eval_defs =
  strptime_def year_token_def is_digit_def in_range_def digits_val_def
  digit_val_def is_space_def days_in_month_def is_leap_def
  valuation_key_def getitem_def float_digits_dots_def re_sub_non_digit_dot_def
  date_key_def primary_date_key_def lower_key_def lower_def lower_char_def
  sorted_py_def sorted_variant_def datetime_min_def
  less_eq_char_def less_char_def
  save_to_csv_def sort_by_issue_date_def write_csv_def dict_to_list_def
  dict_get_def permit_keys_def generate_sorted_versions_def sort_names_def Let_def logging_def
  primary_filename_def sorted_filename_def str_nat_def


section \<open>Properties of the sink\<close>

text \<open>
  Claim C8. When \<open>save_to_csv\<close> completes, with or without the sorted versions, the list
  the caller holds is a reordering of the records it passed, each record as it was; every
  file written has the configured \<open>csv_headers\<close> as its first row and then, for some
  reordering of the records, the row that reads each record in the order of
  \<open>csv_headers\<close>. The same holds for the five files of \<open>generate_sorted_versions\<close> called
  on its own. The row of a record depends on its key to value mapping only, not on the
  order of its keys.
\<close>

theorem sink_keeps_fields_and_header_order:
  "(save_to_csv self permits county_slug timestamp generate_sorted w = (None, permits', w') \<longrightarrow>
      mset permits' = mset permits \<and>
      (\<exists>new. files w' = files w @ new \<and>
         (\<forall>f\<in>set new. \<exists>recs. mset recs = mset permits \<and>
            snd f = csv_headers self
              # map (\<lambda>p. map (\<lambda>key. dict_get p key []) (csv_headers self)) recs)))
   \<and> (generate_sorted_versions self permits county_slug timestamp w = (None, w'') \<longrightarrow>
        (\<exists>new. files w'' = files w @ new \<and> length new = 5 \<and>
           (\<forall>f\<in>set new. \<exists>recs. mset recs = mset permits \<and>
              snd f = csv_headers self
                # map (\<lambda>p. map (\<lambda>key. dict_get p key []) (csv_headers self)) recs)))
   \<and> (map_of q = map_of p \<longrightarrow>
        dict_to_list (csv_headers self) q = dict_to_list (csv_headers self) p)"
proof (intro conjI impI)
  assume a: "save_to_csv self permits county_slug timestamp generate_sorted w = (None, permits', w')"
  from save_to_csv_None [OF a] show "mset permits' = mset permits" by simp
  from save_to_csv_None [OF a]
  show "\<exists>new. files w' = files w @ new \<and>
         (\<forall>f\<in>set new. \<exists>recs. mset recs = mset permits \<and>
            snd f = csv_headers self
              # map (\<lambda>p. map (\<lambda>key. dict_get p key []) (csv_headers self)) recs)"
    by simp
next
  assume "generate_sorted_versions self permits county_slug timestamp w = (None, w'')"
  from sorted_loop_files [OF this [unfolded generate_sorted_versions_def]]
  show "\<exists>new. files w'' = files w @ new \<and> length new = 5 \<and>
           (\<forall>f\<in>set new. \<exists>recs. mset recs = mset permits \<and>
              snd f = csv_headers self
                # map (\<lambda>p. map (\<lambda>key. dict_get p key []) (csv_headers self)) recs)"
    by (simp only: length_sort_names)
next
  assume "map_of q = map_of p"
  then show "dict_to_list (csv_headers self) q = dict_to_list (csv_headers self) p"
    by (rule dict_to_list_map_of)
qed

theorem sink_keeps_fields_and_header_order_witness:
  "fst (save_to_csv \<lparr>csv_headers = permit_keys\<rparr>
         [[(''permit_number'', ''P1''), (''issue_date'', ''01/05/2024''),
           (''address'', ''1 Main St''), (''work_type'', ''Roof''),
           (''contractor'', ''ACME''), (''valuation'', ''$10,000'')],
          [(''permit_number'', ''P2''), (''issue_date'', ''01/07/2024''),
           (''address'', ''2 Oak Ave''), (''work_type'', ''Addition''),
           (''contractor'', []), (''valuation'', [])]]
         ''bexar'' ''20240108_060000'' True \<lparr>files = [], log = [], live_sessions = 0\<rparr>) = None
   \<and> mset (fst (snd (save_to_csv \<lparr>csv_headers = permit_keys\<rparr>
         [[(''permit_number'', ''P1''), (''issue_date'', ''01/05/2024''),
           (''address'', ''1 Main St''), (''work_type'', ''Roof''),
           (''contractor'', ''ACME''), (''valuation'', ''$10,000'')],
          [(''permit_number'', ''P2''), (''issue_date'', ''01/07/2024''),
           (''address'', ''2 Oak Ave''), (''work_type'', ''Addition''),
           (''contractor'', []), (''valuation'', [])]]
         ''bexar'' ''20240108_060000'' True \<lparr>files = [], log = [], live_sessions = 0\<rparr>)))
     = mset [[(''permit_number'', ''P1''), (''issue_date'', ''01/05/2024''),
           (''address'', ''1 Main St''), (''work_type'', ''Roof''),
           (''contractor'', ''ACME''), (''valuation'', ''$10,000'')],
          [(''permit_number'', ''P2''), (''issue_date'', ''01/07/2024''),
           (''address'', ''2 Oak Ave''), (''work_type'', ''Addition''),
           (''contractor'', []), (''valuation'', [])]]
   \<and> fst (generate_sorted_versions \<lparr>csv_headers = permit_keys\<rparr>
         [[(''permit_number'', ''P1''), (''issue_date'', ''01/05/2024''),
           (''address'', ''1 Main St''), (''work_type'', ''Roof''),
           (''contractor'', ''ACME''), (''valuation'', ''$10,000'')],
          [(''permit_number'', ''P2''), (''issue_date'', ''01/07/2024''),
           (''address'', ''2 Oak Ave''), (''work_type'', ''Addition''),
           (''contractor'', []), (''valuation'', [])]]
         ''bexar'' ''20240108_060000'' \<lparr>files = [], log = [], live_sessions = 0\<rparr>) = None
   \<and> length (files (snd (generate_sorted_versions \<lparr>csv_headers = permit_keys\<rparr>
         [[(''permit_number'', ''P1''), (''issue_date'', ''01/05/2024''),
           (''address'', ''1 Main St''), (''work_type'', ''Roof''),
           (''contractor'', ''ACME''), (''valuation'', ''$10,000'')],
          [(''permit_number'', ''P2''), (''issue_date'', ''01/07/2024''),
           (''address'', ''2 Oak Ave''), (''work_type'', ''Addition''),
           (''contractor'', []), (''valuation'', [])]]
         ''bexar'' ''20240108_060000'' \<lparr>files = [], log = [], live_sessions = 0\<rparr>))) = 5
   \<and> map_of [(''issue_date'', ''01/05/2024''), (''permit_number'', ''P1'')]
       = map_of [(''permit_number'', ''P1''), (''issue_date'', ''01/05/2024'')]
   \<and> dict_to_list permit_keys [(''issue_date'', ''01/05/2024''), (''permit_number'', ''P1'')]
       = dict_to_list permit_keys [(''permit_number'', ''P1''), (''issue_date'', ''01/05/2024'')]"
proof -
  let ?self = "\<lparr>csv_headers = permit_keys\<rparr>"
  let ?ps = "[[(''permit_number'', ''P1''), (''issue_date'', ''01/05/2024''),
           (''address'', ''1 Main St''), (''work_type'', ''Roof''),
           (''contractor'', ''ACME''), (''valuation'', ''$10,000'')],
          [(''permit_number'', ''P2''), (''issue_date'', ''01/07/2024''),
           (''address'', ''2 Oak Ave''), (''work_type'', ''Addition''),
           (''contractor'', []), (''valuation'', [])]]"
  let ?w = "\<lparr>files = [], log = [], live_sessions = 0\<rparr>"
  let ?X = "save_to_csv ?self ?ps ''bexar'' ''20240108_060000'' True ?w"
  let ?Y = "generate_sorted_versions ?self ?ps ''bexar'' ''20240108_060000'' ?w"
  let ?q = "[(''issue_date'', ''01/05/2024''), (''permit_number'', ''P1'')]"
  let ?p = "[(''permit_number'', ''P1''), (''issue_date'', ''01/05/2024'')]"
  have hx: "fst ?X = None" by (simp add: eval_defs)
  have hy: "fst ?Y = None" by (simp add: eval_defs)
  have hq: "map_of ?q = map_of ?p" by (auto simp: fun_eq_iff)
  have X: "?X = (None, fst (snd ?X), snd (snd ?X))" using hx by (metis prod.collapse)
  have Y: "?Y = (None, snd ?Y)" using hy by (metis prod.collapse)
  note t = sink_keeps_fields_and_header_order
    [of ?self ?ps "''bexar''" "''20240108_060000''" True ?w "fst (snd ?X)" "snd (snd ?X)"
        "snd ?Y" ?q ?p]
  from t X have c1: "mset (fst (snd ?X)) = mset ?ps" by blast
  from t Y have "\<exists>new. files (snd ?Y) = files ?w @ new \<and> length new = 5" by blast
  then have c2: "length (files (snd ?Y)) = 5" by auto
  from t hq have c3: "dict_to_list permit_keys ?q = dict_to_list permit_keys ?p" by simp
  from hx hy hq c1 c2 c3 show ?thesis by blast
qed

lemma getitem_wf:
  assumes "map fst p = permit_keys" and "k \<in> set permit_keys"
  shows "getitem p k = Inr (dict_get p k [])"
proof -
  from assms have "k \<in> fst ` set p" by (metis list.set_map)
  then have "map_of p k \<noteq> None" by (simp add: map_of_eq_None_iff)
  then show ?thesis by (auto simp: getitem_def dict_get_def)
qed

lemma strptime_error: "strptime s = Inl e \<Longrightarrow> e = ValueError"
  by (auto simp: strptime_def Let_def split: list.splits if_splits)

lemma primary_date_key_wf:
  "map fst p = permit_keys \<Longrightarrow> primary_date_key p = strptime (dict_get p ''issue_date'' [])"
  by (simp add: primary_date_key_def getitem_wf permit_keys_def)


lemma keyed_all_Inr: "\<forall>x\<in>set xs. \<not> isl (f x) \<Longrightarrow> \<exists>kxs. keyed f xs = Inr kxs"
  by (induction xs) (auto split: sum.splits)

lemma wf_keys_subset:
  "\<forall>p\<in>set ps. map fst p = permit_keys \<Longrightarrow> set permit_keys \<subseteq> set hdrs \<Longrightarrow>
   \<forall>p\<in>set ps. set (map fst p) \<subseteq> set hdrs"
  by simp

lemma sort_by_issue_date_unparsed:
  assumes wf: "\<forall>p\<in>set permits. map fst p = permit_keys"
    and bad: "\<exists>p\<in>set permits. isl (strptime (dict_get p ''issue_date'' []))"
  shows "sort_by_issue_date permits slug w =
           Inr (permits,
                logging ''WARNING'' (''Could not sort permits for '' @ slug @ '' by date'') w)"
proof -
  have "keyed primary_date_key permits = Inl ValueError"
  proof (rule keyed_first_error)
    show "\<exists>x\<in>set permits. isl (primary_date_key x)"
      using wf bad by (auto simp: primary_date_key_wf)
    show "\<And>x e. x \<in> set permits \<Longrightarrow> primary_date_key x = Inl e \<Longrightarrow> e = ValueError"
      using wf by (auto simp: primary_date_key_wf dest: strptime_error)
  qed
  then show ?thesis by (simp add: sort_by_issue_date_def sorted_py_def)
qed

lemma sort_by_issue_date_parsed:
  assumes wf: "\<forall>p\<in>set permits. map fst p = permit_keys"
    and good: "\<forall>p\<in>set permits. \<not> isl (strptime (dict_get p ''issue_date'' []))"
  shows "\<exists>sp. sort_by_issue_date permits slug w = Inr (sp, w) \<and> mset sp = mset permits
           \<and> sorted (rev (map (\<lambda>p. projr (strptime (dict_get p ''issue_date'' []))) sp))"
proof -
  have "\<forall>p\<in>set permits. \<not> isl (primary_date_key p)"
    using wf good by (simp add: primary_date_key_wf)
  then obtain kxs where "keyed primary_date_key permits = Inr kxs"
    using keyed_all_Inr by blast
  then obtain sp where sp: "sorted_py primary_date_key True permits = Inr sp"
    by (simp add: sorted_py_def)
  have m: "mset sp = mset permits" using sp by (rule sorted_py_mset)
  then have "set sp = set permits" by (rule mset_eq_setD)
  then have "map (\<lambda>p. projr (primary_date_key p)) sp
             = map (\<lambda>p. projr (strptime (dict_get p ''issue_date'' []))) sp"
    using wf by (simp add: primary_date_key_wf)
  with sorted_py_descending [OF sp]
  have "sorted (rev (map (\<lambda>p. projr (strptime (dict_get p ''issue_date'' []))) sp))" by simp
  with sp m show ?thesis by (simp add: sort_by_issue_date_def)
qed

lemma save_to_csv_primary:
  assumes ne: "permits \<noteq> []"
    and s1: "sort_by_issue_date permits slug w = Inr (permits1, w1)"
    and keys: "\<forall>p\<in>set permits. set (map fst p) \<subseteq> set (csv_headers self)"
    and res: "save_to_csv self permits slug ts gs w = (r, permits', w')"
  shows "permits' = permits1 \<and> (\<not> gs \<longrightarrow> r = None) \<and> set (log w1) \<subseteq> set (log w')
         \<and> (\<exists>rest. files w' = files w @
               (primary_filename slug ts,
                csv_headers self
                  # map (\<lambda>p. map (\<lambda>key. dict_get p key []) (csv_headers self)) permits1) # rest)"
proof -
  let ?row = "\<lambda>recs. csv_headers self # map (\<lambda>p. map (\<lambda>key. dict_get p key []) (csv_headers self)) recs"
  note fr1 = sort_by_issue_date_Inr [OF s1]
  then have "set permits1 = set permits" by (metis mset_eq_setD)
  with keys have k1: "\<forall>p\<in>set permits1. set (map fst p) \<subseteq> set (csv_headers self)" by simp
  define w2 where "w2 = w1\<lparr>files := files w1 @ [(primary_filename slug ts, ?row permits1)]\<rparr>"
  have wr: "write_csv self (primary_filename slug ts) permits1 w1 = (None, w2)"
    using write_csv_ok [OF k1] by (simp add: w2_def)
  define w3 where "w3 = logging ''INFO''
       (''Saved '' @ str_nat (length permits1) @ '' permits to '' @ primary_filename slug ts) w2"
  have fw3: "files w3 = files w @ [(primary_filename slug ts, ?row permits1)]"
    and lw3: "set (log w1) \<subseteq> set (log w3)"
    using fr1 by (auto simp: w3_def w2_def)
  note eq = save_to_csv_written [OF ne s1 wr, of gs, folded w3_def]
  show ?thesis
  proof (cases gs)
    case False
    with eq res have "permits' = permits1" "r = None" "w' = w3" by simp_all
    with fw3 lw3 False show ?thesis by simp
  next
    case True
    with eq res have g: "generate_sorted_versions self permits1 slug ts w3 = (r, w')"
      and p': "permits' = permits1"
      by (auto split: prod.splits)
    from sorted_loop_frame [OF g [unfolded generate_sorted_versions_def]]
    obtain new where "files w' = files w3 @ new" and "set (log w3) \<subseteq> set (log w')" by auto
    with fw3 lw3 p' True show ?thesis by auto
  qed
qed


text \<open>
  Claim C4. Let the records have the six keys and the configured headers hold them, and
  let the list not be empty. Then \<open>save_to_csv\<close> writes the primary file in full, as
  the first file of the call, with the header row and one row per record of the list as
  the call leaves it, and without the sorted versions it returns normally. When the
  \<open>issue_date\<close> of some record does not parse, that list is the one passed, in its
  order, and the warning is in the log. When every \<open>issue_date\<close> parses, that list is a
  reordering of the one passed in which the parsed dates descend.
\<close>

theorem primary_csv_sorted_or_extraction_order:
  assumes "permits \<noteq> []"
    and "\<forall>p\<in>set permits. map fst p = permit_keys"
    and "set permit_keys \<subseteq> set (csv_headers self)"
    and "save_to_csv self permits county_slug timestamp generate_sorted w = (r, permits', w')"
  shows "(\<exists>rest. files w' = files w @
             (primary_filename county_slug timestamp,
              csv_headers self
                # map (\<lambda>p. map (\<lambda>key. dict_get p key []) (csv_headers self)) permits') # rest)
         \<and> (\<not> generate_sorted \<longrightarrow> r = None)
         \<and> ((\<exists>p\<in>set permits. isl (strptime (dict_get p ''issue_date'' []))) \<longrightarrow>
               permits' = permits
               \<and> (''WARNING'', ''Could not sort permits for '' @ county_slug @ '' by date'')
                   \<in> set (log w'))
         \<and> ((\<forall>p\<in>set permits. \<not> isl (strptime (dict_get p ''issue_date'' []))) \<longrightarrow>
               mset permits' = mset permits
               \<and> sorted (rev (map (\<lambda>p. projr (strptime (dict_get p ''issue_date'' []))) permits')))"
proof (cases "\<exists>p\<in>set permits. isl (strptime (dict_get p ''issue_date'' []))")
  case True
  note s1 = sort_by_issue_date_unparsed [OF assms(2) True, of county_slug w]
  note keys = wf_keys_subset [OF assms(2,3)]
  from save_to_csv_primary [OF assms(1) s1 keys assms(4)] True
  show ?thesis by auto
next
  case False
  then have good: "\<forall>p\<in>set permits. \<not> isl (strptime (dict_get p ''issue_date'' []))" by simp
  from sort_by_issue_date_parsed [OF assms(2) good, of county_slug w]
  obtain sp where s1: "sort_by_issue_date permits county_slug w = Inr (sp, w)"
    and m: "mset sp = mset permits"
    and srt: "sorted (rev (map (\<lambda>p. projr (strptime (dict_get p ''issue_date'' []))) sp))"
    by blast
  note keys = wf_keys_subset [OF assms(2,3)]
  from save_to_csv_primary [OF assms(1) s1 keys assms(4)] False m srt
  show ?thesis by auto
qed

theorem primary_csv_sorted_or_extraction_order_witness:
  "[[(''permit_number'', ''P1''), (''issue_date'', ''01/05/2024''),
     (''address'', ''1 Main St''), (''work_type'', ''Roof''),
     (''contractor'', ''ACME''), (''valuation'', ''$10,000'')],
    [(''permit_number'', ''P2''), (''issue_date'', ''pending''),
     (''address'', ''2 Oak Ave''), (''work_type'', ''Addition''),
     (''contractor'', []), (''valuation'', [])]] \<noteq> []
   \<and> isl (strptime (dict_get [(''permit_number'', ''P2''), (''issue_date'', ''pending''),
           (''address'', ''2 Oak Ave''), (''work_type'', ''Addition''),
           (''contractor'', []), (''valuation'', [])] ''issue_date'' []))
   \<and> fst (snd (save_to_csv \<lparr>csv_headers = permit_keys\<rparr>
         [[(''permit_number'', ''P1''), (''issue_date'', ''01/05/2024''),
           (''address'', ''1 Main St''), (''work_type'', ''Roof''),
           (''contractor'', ''ACME''), (''valuation'', ''$10,000'')],
          [(''permit_number'', ''P2''), (''issue_date'', ''pending''),
           (''address'', ''2 Oak Ave''), (''work_type'', ''Addition''),
           (''contractor'', []), (''valuation'', [])]]
         ''bexar'' ''20240108_060000'' False \<lparr>files = [], log = [], live_sessions = 0\<rparr>))
     = [[(''permit_number'', ''P1''), (''issue_date'', ''01/05/2024''),
           (''address'', ''1 Main St''), (''work_type'', ''Roof''),
           (''contractor'', ''ACME''), (''valuation'', ''$10,000'')],
          [(''permit_number'', ''P2''), (''issue_date'', ''pending''),
           (''address'', ''2 Oak Ave''), (''work_type'', ''Addition''),
           (''contractor'', []), (''valuation'', [])]]
   \<and> (''WARNING'', ''Could not sort permits for bexar by date'')
       \<in> set (log (snd (snd (save_to_csv \<lparr>csv_headers = permit_keys\<rparr>
         [[(''permit_number'', ''P1''), (''issue_date'', ''01/05/2024''),
           (''address'', ''1 Main St''), (''work_type'', ''Roof''),
           (''contractor'', ''ACME''), (''valuation'', ''$10,000'')],
          [(''permit_number'', ''P2''), (''issue_date'', ''pending''),
           (''address'', ''2 Oak Ave''), (''work_type'', ''Addition''),
           (''contractor'', []), (''valuation'', [])]]
         ''bexar'' ''20240108_060000'' False \<lparr>files = [], log = [], live_sessions = 0\<rparr>))))
   \<and> fst (save_to_csv \<lparr>csv_headers = permit_keys\<rparr>
         [[(''permit_number'', ''P1''), (''issue_date'', ''01/05/2024''),
           (''address'', ''1 Main St''), (''work_type'', ''Roof''),
           (''contractor'', ''ACME''), (''valuation'', ''$10,000'')],
          [(''permit_number'', ''P2''), (''issue_date'', ''pending''),
           (''address'', ''2 Oak Ave''), (''work_type'', ''Addition''),
           (''contractor'', []), (''valuation'', [])]]
         ''bexar'' ''20240108_060000'' False \<lparr>files = [], log = [], live_sessions = 0\<rparr>) = None
   \<and> sorted (rev (map (\<lambda>p. projr (strptime (dict_get p ''issue_date'' [])))
         (fst (snd (save_to_csv \<lparr>csv_headers = permit_keys\<rparr>
           [[(''permit_number'', ''P1''), (''issue_date'', ''01/05/2024''),
             (''address'', ''1 Main St''), (''work_type'', ''Roof''),
             (''contractor'', ''ACME''), (''valuation'', ''$10,000'')],
            [(''permit_number'', ''P2''), (''issue_date'', ''01/07/2024''),
             (''address'', ''2 Oak Ave''), (''work_type'', ''Addition''),
             (''contractor'', []), (''valuation'', [])]]
           ''bexar'' ''20240108_060000'' False
           \<lparr>files = [], log = [], live_sessions = 0\<rparr>)))))"
proof -
  let ?self = "\<lparr>csv_headers = permit_keys\<rparr>"
  let ?p1 = "[(''permit_number'', ''P1''), (''issue_date'', ''01/05/2024''),
           (''address'', ''1 Main St''), (''work_type'', ''Roof''),
           (''contractor'', ''ACME''), (''valuation'', ''$10,000'')]"
  let ?bad = "[(''permit_number'', ''P2''), (''issue_date'', ''pending''),
           (''address'', ''2 Oak Ave''), (''work_type'', ''Addition''),
           (''contractor'', []), (''valuation'', [])]"
  let ?p2 = "[(''permit_number'', ''P2''), (''issue_date'', ''01/07/2024''),
             (''address'', ''2 Oak Ave''), (''work_type'', ''Addition''),
             (''contractor'', []), (''valuation'', [])]"
  let ?w = "\<lparr>files = [], log = [], live_sessions = 0\<rparr>"
  let ?A = "save_to_csv ?self [?p1, ?bad] ''bexar'' ''20240108_060000'' False ?w"
  let ?B = "save_to_csv ?self [?p1, ?p2] ''bexar'' ''20240108_060000'' False ?w"
  have neA: "[?p1, ?bad] \<noteq> []" and neB: "[?p1, ?p2] \<noteq> []" by simp_all
  have wfA: "\<forall>p\<in>set [?p1, ?bad]. map fst p = permit_keys"
    and wfB: "\<forall>p\<in>set [?p1, ?p2]. map fst p = permit_keys"
    by (simp_all add: permit_keys_def)
  have hd: "set permit_keys \<subseteq> set (csv_headers ?self)" by simp
  have bad: "isl (strptime (dict_get ?bad ''issue_date'' []))"
    by (simp add: eval_defs)
  have good: "\<forall>p\<in>set [?p1, ?p2]. \<not> isl (strptime (dict_get p ''issue_date'' []))"
    by (simp add: eval_defs)
  have A: "?A = (fst ?A, fst (snd ?A), snd (snd ?A))"
    and B: "?B = (fst ?B, fst (snd ?B), snd (snd ?B))" by simp_all
  note tA = primary_csv_sorted_or_extraction_order [OF neA wfA hd A]
  note tB = primary_csv_sorted_or_extraction_order [OF neB wfB hd B]
  from tA bad have a1: "fst (snd ?A) = [?p1, ?bad]"
    and a2: "(''WARNING'', ''Could not sort permits for bexar by date'') \<in> set (log (snd (snd ?A)))"
    and a3: "fst ?A = None"
    by auto
  from tB good
  have b1: "sorted (rev (map (\<lambda>p. projr (strptime (dict_get p ''issue_date'' []))) (fst (snd ?B))))"
    by blast
  from neA bad a1 a2 a3 b1 show ?thesis by blast
qed



section \<open>Properties of the valuation key\<close>







section \<open>Properties of the orchestrator\<close>

lemmas run_defs =
  main_def run_all_def scrape_bexar_def scrape_hamilton_def scrape_davidson_def
  scrape_travis_def scrape_county_def parse_accela_results_def accela_row_def
  parse_nashville_results_def nashville_table_def nashville_row_def nashville_card_def
  strip_def

text \<open>
  Claim C1, in the code: \<open>run_all\<close> does not pass \<open>generate_sorted\<close> on, and every
  \<open>scrape_*\<close> calls \<open>save_to_csv\<close> with two arguments, so a run with \<open>--sort\<close> is the run
  without it. With one record from the first source, the run with the flag writes the
  primary file of that source and no sorted version.
\<close>

theorem sort_flag_not_passed_on:
  "main self True envs w = main self False envs w
   \<and> files (snd (main \<lparr>csv_headers = permit_keys\<rparr> True
        \<lparr>bexar = \<lparr>get_driver = None,
                   page_source = Inr \<lparr>table = Some [[''Permit'', ''Date'', ''Address'', ''Type'',
                                                     ''Contractor'', ''Valuation''],
                                                    [''P1'', ''01/05/2024'', ''1 Main St'', ''Roof'',
                                                     ''ACME'', ''$10,000'']],
                                      cards = []\<rparr>,
                   now = ''20240108_060000''\<rparr>,
         hamilton = \<lparr>get_driver = None, page_source = Inr \<lparr>table = None, cards = []\<rparr>,
                      now = ''20240108_060100''\<rparr>,
         davidson = \<lparr>get_driver = None, page_source = Inr \<lparr>table = None, cards = []\<rparr>,
                      now = ''20240108_060200''\<rparr>,
         travis = \<lparr>get_driver = None, page_source = Inr \<lparr>table = None, cards = []\<rparr>,
                    now = ''20240108_060300''\<rparr>\<rparr>
        \<lparr>files = [], log = [], live_sessions = 0\<rparr>))
     = [(''data/bexar_permits_20240108_060000.csv'',
         [[''permit_number'', ''issue_date'', ''address'', ''work_type'', ''contractor'',
           ''valuation''],
          [''P1'', ''01/05/2024'', ''1 Main St'', ''Roof'', ''ACME'', ''$10,000'']])]"
proof
  show "main self True envs w = main self False envs w"
    by (simp add: main_def run_all_def)
  show "files (snd (main \<lparr>csv_headers = permit_keys\<rparr> True
        \<lparr>bexar = \<lparr>get_driver = None,
                   page_source = Inr \<lparr>table = Some [[''Permit'', ''Date'', ''Address'', ''Type'',
                                                     ''Contractor'', ''Valuation''],
                                                    [''P1'', ''01/05/2024'', ''1 Main St'', ''Roof'',
                                                     ''ACME'', ''$10,000'']],
                                      cards = []\<rparr>,
                   now = ''20240108_060000''\<rparr>,
         hamilton = \<lparr>get_driver = None, page_source = Inr \<lparr>table = None, cards = []\<rparr>,
                      now = ''20240108_060100''\<rparr>,
         davidson = \<lparr>get_driver = None, page_source = Inr \<lparr>table = None, cards = []\<rparr>,
                      now = ''20240108_060200''\<rparr>,
         travis = \<lparr>get_driver = None, page_source = Inr \<lparr>table = None, cards = []\<rparr>,
                    now = ''20240108_060300''\<rparr>\<rparr>
        \<lparr>files = [], log = [], live_sessions = 0\<rparr>))
     = [(''data/bexar_permits_20240108_060000.csv'',
         [[''permit_number'', ''issue_date'', ''address'', ''work_type'', ''contractor'',
           ''valuation''],
          [''P1'', ''01/05/2024'', ''1 Main St'', ''Roof'', ''ACME'', ''$10,000'']])]"
    by (simp add: run_defs eval_defs)
qed







end
